theory Spec2Isabelle
  imports Complex_Main "HOL-Library.Word" "HOL-Library.Mapping" "HOL-Library.Monad_Syntax"
begin

unbundle bit_operations_syntax

section \<open>Data model of main.go\<close>

type_synonym byte = "8 word"
type_synonym uint64 = "64 word"
type_synonym int64 = "64 word"

text \<open>solana.PublicKey, solana.Hash (32 bytes each) and solana.Signature (64 bytes).\<close>

type_synonym PublicKey = "byte list"
type_synonym Hash = "byte list"
type_synonym Signature = "byte list"

record MessageHeader =
  NumRequiredSignatures :: byte
  NumReadonlySignedAccounts :: byte
  NumReadonlyUnsignedAccounts :: byte

record CompiledInstruction =
  ProgramIDIndex :: byte
  Accounts :: "byte list"
  Data :: "byte list"

record Message =
  AccountKeys :: "PublicKey list"
  Header :: MessageHeader
  RecentBlockhash :: Hash
  Instructions :: "CompiledInstruction list"

record Transaction =
  Signatures :: "Signature list"
  Message :: Message

text \<open>type SolanaEntry struct (main.go, line 547).\<close>

record SolanaEntry =
  NumHashes :: uint64
  Hash :: Hash
  Transactions :: "Transaction list"

text \<open>pb_shredstream.Entry: the frame the stream yields, a slot and the raw entry bytes.\<close>

record Entry =
  Slot :: uint64
  Entries :: "byte list"

text \<open>The package-level counters (main.go, lines 34 to 43), all int64.\<close>

record Stats =
  totalEntries :: int64
  parsedEntries :: int64
  failedEntries :: int64
  totalTxs :: int64
  matchedTxs :: int64
  parseErrors :: int64
  reconnectCount :: int64
  lastSlot :: int64

section \<open>Errors\<close>

text \<open>
  Errors of the transaction decoder (solana-go's Transaction.UnmarshalWithDecoder), a
  library function; the two kinds the design names.
\<close>

datatype txerror = Truncated | NoSignatures

text \<open>
  One constructor per error the source builds with fmt.Errorf, carrying the values the
  message formats and the wrapped error; \<open>ErrShort\<close> is the binary decoder's own error
  for a read past the end, \<open>IndexOutOfRange\<close> is Go's run-time panic.
\<close>

datatype error =
    ErrShort
  | ReadNumHashesFailed error
  | UnreasonableHashCount uint64
  | ReadHashFailed error
  | ReadNumTxnsFailed error
  | UnreasonableTxnCount uint64
  | InsufficientBytes uint64
  | FirstTransactionCorrupt txerror
  | DataTooShort
  | SkipHeaderFailed error
  | TooSmall nat
  | AllMethodsFailed error
  | ReadNumHashesAt nat error
  | ReadHashAt nat error
  | HashShortRead nat
  | ReadNumTxnsAt nat error
  | UnreasonableNumTxns uint64
  | NotEnoughBytes uint64 uint64 nat
  | DecodeTransactionFailed uint64 uint64 nat txerror
  | IndexOutOfRange

section \<open>The binary decoder (bin.Decoder)\<close>

text \<open>
  Modelled from the spec: the byte cursor bin.Decoder of github.com/gagliardetto/binary,
  a library that is not under src/. It is the buffer and a position in it, with the
  operations main.go calls: \<open>NewBinDecoder\<close>, \<open>Remaining\<close>, \<open>Position\<close>, \<open>ReadUint64\<close>
  with bin.LE (an 8-byte little-endian unsigned value) and \<open>Read\<close> into a buffer of a
  given length. A read that needs more bytes than remain fails and does not advance the
  cursor.
\<close>

record Decoder =
  dec_data :: "byte list"
  dec_pos :: nat

definition NewBinDecoder :: "byte list \<Rightarrow> Decoder" where
  "NewBinDecoder bs = \<lparr>dec_data = bs, dec_pos = 0\<rparr>"

definition Remaining :: "Decoder \<Rightarrow> nat" where
  "Remaining d = length (dec_data d) - dec_pos d"

definition Position :: "Decoder \<Rightarrow> nat" where
  "Position d = dec_pos d"

text \<open>binary.LittleEndian.Uint64: b[0] | b[1]<<8 | ... | b[7]<<56.\<close>

fun LittleEndian_Uint64 :: "byte list \<Rightarrow> uint64" where
  "LittleEndian_Uint64 [] = 0"
| "LittleEndian_Uint64 (b # bs) = ucast b OR push_bit 8 (LittleEndian_Uint64 bs)"

definition ReadUint64 :: "Decoder \<Rightarrow> error + (uint64 \<times> Decoder)" where
  "ReadUint64 d =
     (if Remaining d < 8 then Inl ErrShort
      else Inr (LittleEndian_Uint64 (take 8 (drop (dec_pos d) (dec_data d))),
                d\<lparr>dec_pos := dec_pos d + 8\<rparr>))"

text \<open>Read(buf) with len(buf) = n: the bytes read, their number, and the new cursor.\<close>

definition Read :: "nat \<Rightarrow> Decoder \<Rightarrow> error + (byte list \<times> nat \<times> Decoder)" where
  "Read n d =
     (if dec_pos d + n > length (dec_data d) then Inl ErrShort
      else Inr (take n (drop (dec_pos d) (dec_data d)), n, d\<lparr>dec_pos := dec_pos d + n\<rparr>))"

text \<open>
  The transaction decoder, solana-go's Transaction.UnmarshalWithDecoder, is a library
  function too. The entry decoders take it as a parameter: from a cursor it gives an
  error, or a transaction and the advanced cursor. What is proved of them holds for
  every such function.
\<close>

type_synonym txdecoder = "Decoder \<Rightarrow> txerror + (Transaction \<times> Decoder)"

section \<open>The entry decoders\<close>

text \<open>
  The transaction loop of parseStandardEntry (lines 282 to 292): \<open>k\<close> iterations are
  left, \<open>i\<close> is the loop index. A failure at index 0 is an error; a later failure
  breaks out of the loop with the transactions appended so far.
\<close>

fun readTransactions ::
  "txdecoder \<Rightarrow> nat \<Rightarrow> nat \<Rightarrow> Decoder \<Rightarrow> Transaction list \<Rightarrow> error + Transaction list" where
  "readTransactions txdec 0 i d transactions = Inr transactions"
| "readTransactions txdec (Suc k) i d transactions =
     (case txdec d of
        Inl err \<Rightarrow> if i = 0 then Inl (FirstTransactionCorrupt err) else Inr transactions
      | Inr (tx, d') \<Rightarrow> readTransactions txdec k (i + 1) d' (transactions @ [tx]))"

text \<open>
  parseStandardEntry (lines 240 to 299). \<open>numTxns * 100\<close> is a uint64 product and is
  compared with the remaining length, an int that is never negative.
\<close>

definition parseStandardEntry :: "txdecoder \<Rightarrow> byte list \<Rightarrow> error + SolanaEntry" where
  "parseStandardEntry txdec bs =
     (let decoder = NewBinDecoder bs in
      case ReadUint64 decoder of
        Inl err \<Rightarrow> Inl (ReadNumHashesFailed err)
      | Inr (numHashes, d1) \<Rightarrow>
          if numHashes > 1000000 then Inl (UnreasonableHashCount numHashes)
          else
            (case Read 32 d1 of
               Inl err \<Rightarrow> Inl (ReadHashFailed err)
             | Inr (hashBytes, _, d2) \<Rightarrow>
                 (case ReadUint64 d2 of
                    Inl err \<Rightarrow> Inl (ReadNumTxnsFailed err)
                  | Inr (numTxns, d3) \<Rightarrow>
                      if numTxns > 10000 then Inl (UnreasonableTxnCount numTxns)
                      else
                        (let estimatedBytesNeeded = numTxns * 100 in
                         if unat estimatedBytesNeeded > Remaining d3
                         then Inl (InsufficientBytes numTxns)
                         else
                           (case readTransactions txdec (unat numTxns) 0 d3 [] of
                              Inl err \<Rightarrow> Inl err
                            | Inr transactions \<Rightarrow>
                                Inr \<lparr>NumHashes = numHashes, Hash = hashBytes,
                                     Transactions = transactions\<rparr>)))))"

text \<open>parseJitoEntry (lines 302 to 317): skip an 8-byte header, then the standard decode.\<close>

definition parseJitoEntry :: "txdecoder \<Rightarrow> byte list \<Rightarrow> error + SolanaEntry" where
  "parseJitoEntry txdec bs =
     (let decoder = NewBinDecoder bs in
      if Remaining decoder < 16 then Inl DataTooShort
      else
        (case ReadUint64 decoder of
           Inl err \<Rightarrow> Inl (SkipHeaderFailed err)
         | Inr _ \<Rightarrow> parseStandardEntry txdec (drop 8 bs)))"

text \<open>
  The method SolanaEntry.UnmarshalWithDecoder (lines 554 to 605) fills its receiver in
  place and returns only an error. The model returns the receiver as the call leaves
  it, and the error if there is one. Its transaction loop (lines 594 to 602) returns
  on the first failure, at any index, with the transactions appended so far left in
  the receiver.
\<close>

fun unmarshalTransactions ::
  "txdecoder \<Rightarrow> nat \<Rightarrow> nat \<Rightarrow> uint64 \<Rightarrow> Decoder \<Rightarrow> Transaction list
     \<Rightarrow> Transaction list \<times> error option" where
  "unmarshalTransactions txdec 0 i numTxns d transactions = (transactions, None)"
| "unmarshalTransactions txdec (Suc k) i numTxns d transactions =
     (let txStartPos = Position d in
      case txdec d of
        Inl err \<Rightarrow>
          (transactions,
           Some (DecodeTransactionFailed (of_nat i + 1) numTxns txStartPos err))
      | Inr (tx, d') \<Rightarrow>
          unmarshalTransactions txdec k (i + 1) numTxns d' (transactions @ [tx]))"

definition UnmarshalWithDecoder ::
  "txdecoder \<Rightarrow> SolanaEntry \<Rightarrow> Decoder \<Rightarrow> SolanaEntry \<times> error option" where
  "UnmarshalWithDecoder txdec en decoder =
     (case ReadUint64 decoder of
        Inl err \<Rightarrow> (en\<lparr>NumHashes := 0\<rparr>, Some (ReadNumHashesAt (Position decoder) err))
      | Inr (numHashes, d1) \<Rightarrow>
          (let en1 = en\<lparr>NumHashes := numHashes\<rparr> in
           case Read 32 d1 of
             Inl err \<Rightarrow> (en1, Some (ReadHashAt (Position d1) err))
           | Inr (hashBytes, bytesRead, d2) \<Rightarrow>
               if bytesRead \<noteq> 32 then (en1, Some (HashShortRead bytesRead))
               else
                 (let en2 = en1\<lparr>Hash := hashBytes\<rparr> in
                  case ReadUint64 d2 of
                    Inl err \<Rightarrow> (en2, Some (ReadNumTxnsAt (Position d2) err))
                  | Inr (numTxns, d3) \<Rightarrow>
                      if numTxns > 10000 then (en2, Some (UnreasonableNumTxns numTxns))
                      else
                        (let estimatedBytesNeeded = numTxns * 100 in
                         if unat estimatedBytesNeeded > Remaining d3
                         then (en2, Some (NotEnoughBytes numTxns estimatedBytesNeeded
                                            (Remaining d3)))
                         else
                           (case unmarshalTransactions txdec (unat numTxns) 0 numTxns d3 [] of
                              (transactions, err) \<Rightarrow>
                                (en2\<lparr>Transactions := transactions\<rparr>, err))))))"

section \<open>Address matching and access classification\<close>

text \<open>var targetAddresses (lines 24 to 31): one address is watched.\<close>

definition targetAddresses :: "(string, string) mapping" where
  "targetAddresses =
     Mapping.update ''TSLvdd1pWpHVjahSpsvCXUbgwsL3JAcvokwaKt1eokM'' ''pump'' Mapping.empty"

text \<open>
  containsAddresses (lines 513 to 544). \<open>String\<close> is PublicKey.String of solana-go (the
  base58 text of a key) and \<open>watch\<close> the global map targetAddresses, both passed in.
  At a watched key the function prints \<open>tx.Signatures[0]\<close>, which panics when the
  transaction has no signature.
\<close>

fun containsAddresses_loop ::
  "(PublicKey \<Rightarrow> string) \<Rightarrow> (string, string) mapping \<Rightarrow> Transaction \<Rightarrow> PublicKey list
     \<Rightarrow> (string, string) mapping \<Rightarrow> error + (string, string) mapping" where
  "containsAddresses_loop String watch tx [] foundAddresses = Inr foundAddresses"
| "containsAddresses_loop String watch tx (key # keys) foundAddresses =
     (let keyStr = String key in
      case Mapping.lookup watch keyStr of
        None \<Rightarrow> containsAddresses_loop String watch tx keys foundAddresses
      | Some desc \<Rightarrow>
          if Signatures tx = [] then Inl IndexOutOfRange
          else containsAddresses_loop String watch tx keys
                 (Mapping.update keyStr desc foundAddresses))"

definition containsAddresses ::
  "(PublicKey \<Rightarrow> string) \<Rightarrow> (string, string) mapping \<Rightarrow> Message \<Rightarrow> Transaction
     \<Rightarrow> error + (string, string) mapping" where
  "containsAddresses String watch message tx =
     containsAddresses_loop String watch tx (AccountKeys message) Mapping.empty"

text \<open>
  The body of the account loop of printTransactionDetails (lines 334 to 357): the two
  labels printed for account index \<open>i\<close>, as booleans. Both start at the read-only,
  non-signer default and are overwritten in the branches. The counts are uint8 fields
  converted to int, the index and the number of keys are ints.
\<close>

record AccountLine =
  isWritable :: bool
  isSigner :: bool
  isPayer :: bool

definition accountLine :: "Transaction \<Rightarrow> nat \<Rightarrow> AccountLine" where
  "accountLine tx i =
     (let numRequiredSignatures = uint (NumRequiredSignatures (Header (Message tx)));
          numReadonlySignedAccounts = uint (NumReadonlySignedAccounts (Header (Message tx)));
          numReadonlyUnsignedAccounts = uint (NumReadonlyUnsignedAccounts (Header (Message tx)));
          line = \<lparr>isWritable = False, isSigner = False, isPayer = (i = 0)\<rparr>
      in
        if int i < numRequiredSignatures then
          (if int i < numRequiredSignatures - numReadonlySignedAccounts
           then line\<lparr>isSigner := True, isWritable := True\<rparr>
           else line\<lparr>isSigner := True\<rparr>)
        else
          (let totalReadonlyAccounts = numReadonlySignedAccounts + numReadonlyUnsignedAccounts in
           if int i < int (length (AccountKeys (Message tx))) - totalReadonlyAccounts
           then line\<lparr>isWritable := True\<rparr>
           else line))"

text \<open>
  printTransactionDetails (lines 319 to 396), as far as it can fail and for the account
  lines it prints: \<open>tx.Signatures[0]\<close> panics without a signature, and
  \<open>AccountKeys[inst.ProgramIDIndex]\<close> panics at an index past the key table.
\<close>

definition printTransactionDetails :: "Transaction \<Rightarrow> error + AccountLine list" where
  "printTransactionDetails tx =
     (if Signatures tx = [] then Inl IndexOutOfRange
      else
        (let accountLines = map (accountLine tx) [0 ..< length (AccountKeys (Message tx))] in
         if list_ex (\<lambda>inst. unat (ProgramIDIndex inst) \<ge> length (AccountKeys (Message tx)))
              (Instructions (Message tx))
         then Inl IndexOutOfRange
         else Inr accountLines))"

section \<open>Processing one entry\<close>

text \<open>
  The loop over the decoded transactions in processEntry (lines 208 to 234). A panic
  ends the call with the counters as they are at that moment.
\<close>

fun processTransactions ::
  "(PublicKey \<Rightarrow> string) \<Rightarrow> (string, string) mapping \<Rightarrow> Stats \<Rightarrow> Transaction list
     \<Rightarrow> error option \<times> Stats" where
  "processTransactions String watch st [] = (None, st)"
| "processTransactions String watch st (tx # txs) =
     (case containsAddresses String watch (Message tx) tx of
        Inl err \<Rightarrow> (Some err, st)
      | Inr addressesFound \<Rightarrow>
          if \<not> Mapping.is_empty addressesFound then
            (let st' = st\<lparr>matchedTxs := matchedTxs st + 1\<rparr> in
             if Signatures tx = [] then (Some IndexOutOfRange, st')
             else
               (case printTransactionDetails tx of
                  Inl err \<Rightarrow> (Some err, st')
                | Inr _ \<Rightarrow> processTransactions String watch st' txs))
          else processTransactions String watch st txs)"

text \<open>
  processEntry (lines 185 to 237): the error it returns (\<open>None\<close> for nil) and the
  counters after the call.
\<close>

definition processEntry ::
  "txdecoder \<Rightarrow> (PublicKey \<Rightarrow> string) \<Rightarrow> (string, string) mapping \<Rightarrow> Stats \<Rightarrow> Entry
     \<Rightarrow> error option \<times> Stats" where
  "processEntry txdec String watch st entry =
     (let entriesData = Entries entry in
      if length entriesData < 48 then (Some (TooSmall (length entriesData)), st)
      else
        (case parseJitoEntry txdec entriesData of
           Inl err \<Rightarrow> (Some (AllMethodsFailed err), st)
         | Inr solanaEntry \<Rightarrow>
             processTransactions String watch
               (st\<lparr>totalTxs := totalTxs st + of_nat (length (Transactions solanaEntry))\<rparr>)
               (Transactions solanaEntry)))"

section \<open>The stream loop and the statistics\<close>

text \<open>
  One iteration of the receive loop of connectAndSubscribe (lines 146 to 154), for the
  counters the loop itself writes: it counts the frame, compares the frame's slot (as
  int64) with the stored one, and stores the frame's slot. The second component tells
  whether the slot-jump warning is printed. The task handed to the pool runs on
  another goroutine and writes neither \<open>totalEntries\<close> nor \<open>lastSlot\<close>.
\<close>

definition recvStep :: "Stats \<Rightarrow> Entry \<Rightarrow> Stats \<times> bool" where
  "recvStep st resp =
     (let st1 = st\<lparr>totalEntries := totalEntries st + 1\<rparr>;
          currentSlot = Slot resp;
          lastSlotValue = lastSlot st1;
          warning = (0 <s lastSlotValue \<and> lastSlotValue + 10 <s currentSlot)
      in (st1\<lparr>lastSlot := currentSlot\<rparr>, warning))"

definition recvLoop :: "Stats \<Rightarrow> Entry list \<Rightarrow> Stats" where
  "recvLoop st frames = foldl (\<lambda>s resp. fst (recvStep s resp)) st frames"

text \<open>
  The float64 rates, by kind. A float64 is a finite number, an infinity or NaN; which
  finite number a rate is depends on the rounding of the conversion, of the division
  and of the multiplication, and is not modelled. Go's float64 division does not panic
  on a zero divisor: 0 / 0 is NaN and any other quotient by 0 is an infinity.
  \<open>float64_div a b\<close> is the kind of \<open>float64(a) / float64(b)\<close> for two int64 values:
  the conversion gives 0 for 0 only, and a quotient by a non-zero int64 is finite.
  Multiplying by 100 keeps the kind: a quotient of two int64 values times 100 does not
  overflow.
\<close>

datatype float64 = Finite | PosInf | NegInf | NaN

definition float64_div :: "int \<Rightarrow> int \<Rightarrow> float64" where
  "float64_div a b =
     (if b = 0 then (if a = 0 then NaN else if a > 0 then PosInf else NegInf)
      else Finite)"

fun float64_times100 :: "float64 \<Rightarrow> float64" where
  "float64_times100 Finite = Finite"
| "float64_times100 PosInf = PosInf"
| "float64_times100 NegInf = NegInf"
| "float64_times100 NaN = NaN"

record Report =
  successRate :: float64
  matchRate :: float64

text \<open>
  The body of the ticker loop of printStats (lines 163 to 181): the two rates of the
  report, or \<open>None\<close> when nothing is printed. The only guard is \<open>total > 0\<close>.
\<close>

definition printStats_tick :: "Stats \<Rightarrow> Report option" where
  "printStats_tick st =
     (let total = totalEntries st; parsed = parsedEntries st;
          txs = totalTxs st; matched = matchedTxs st
      in
        if 0 <s total then
          Some \<lparr>successRate = float64_times100 (float64_div (sint parsed) (sint total)),
                matchRate = float64_times100 (float64_div (sint matched) (sint txs))\<rparr>
        else None)"

section \<open>The transaction wire format\<close>

text \<open>
  Modelled from the spec: the compact length prefix read by the transaction decoder
  (solana-go, not under src/): 7 data bits per byte, least significant group first, the
  high bit set on every byte but the last. The length, and the bytes after it.
\<close>

fun ReadCompactLength :: "byte list \<Rightarrow> (nat \<times> byte list) option" where
  "ReadCompactLength [] = None"
| "ReadCompactLength (b # bs) =
     (if b AND 128 = 0 then Some (unat b, bs)
      else
        (case ReadCompactLength bs of
           None \<Rightarrow> None
         | Some (n, rest) \<Rightarrow> Some (unat (b AND 127) + 128 * n, rest)))"

text \<open>
  Modelled from the spec: a read of \<open>n\<close> bytes that fails when fewer remain, and a
  sequence of \<open>n\<close> items read one after the other.
\<close>

definition ReadBytes :: "nat \<Rightarrow> byte list \<Rightarrow> (byte list \<times> byte list) option" where
  "ReadBytes n bs = (if length bs < n then None else Some (take n bs, drop n bs))"

fun ReadSeq ::
  "(byte list \<Rightarrow> ('a \<times> byte list) option) \<Rightarrow> nat \<Rightarrow> byte list \<Rightarrow> ('a list \<times> byte list) option" where
  "ReadSeq rd 0 bs = Some ([], bs)"
| "ReadSeq rd (Suc n) bs =
     (case rd bs of
        None \<Rightarrow> None
      | Some (x, rest) \<Rightarrow>
          (case ReadSeq rd n rest of
             None \<Rightarrow> None
           | Some (xs, rest') \<Rightarrow> Some (x # xs, rest')))"

text \<open>
  Modelled from the spec: an instruction is a 1-byte program-id index, a
  compact-length-prefixed sequence of 1-byte account indices, and a
  compact-length-prefixed data blob.
\<close>

definition ReadInstruction :: "byte list \<Rightarrow> (CompiledInstruction \<times> byte list) option" where
  "ReadInstruction bs =
     (case bs of
        [] \<Rightarrow> None
      | p # r0 \<Rightarrow>
          do {
            (na, r1) \<leftarrow> ReadCompactLength r0;
            (accounts, r2) \<leftarrow> ReadBytes na r1;
            (nd, r3) \<leftarrow> ReadCompactLength r2;
            (dat, r4) \<leftarrow> ReadBytes nd r3;
            Some (\<lparr>ProgramIDIndex = p, Accounts = accounts, Data = dat\<rparr>, r4)
          })"

text \<open>
  Modelled from the spec: the message is a 3-byte header, a compact-length-prefixed
  sequence of 32-byte account keys, a 32-byte recent blockhash and a
  compact-length-prefixed sequence of instructions.
\<close>

definition ReadMessage :: "byte list \<Rightarrow> (Message \<times> byte list) option" where
  "ReadMessage bs =
     do {
       (h, r1) \<leftarrow> ReadBytes 3 bs;
       (nk, r2) \<leftarrow> ReadCompactLength r1;
       (keys, r3) \<leftarrow> ReadSeq (ReadBytes 32) nk r2;
       (blockhash, r4) \<leftarrow> ReadBytes 32 r3;
       (ni, r5) \<leftarrow> ReadCompactLength r4;
       (instructions, r6) \<leftarrow> ReadSeq ReadInstruction ni r5;
       Some (\<lparr>AccountKeys = keys,
              Header = \<lparr>NumRequiredSignatures = h ! 0, NumReadonlySignedAccounts = h ! 1,
                        NumReadonlyUnsignedAccounts = h ! 2\<rparr>,
              RecentBlockhash = blockhash, Instructions = instructions\<rparr>, r6)
     }"

text \<open>
  Modelled from the spec: the transaction decoder, Transaction.UnmarshalWithDecoder of
  solana-go (not under src/). A compact-length-prefixed sequence of 64-byte signatures,
  at least one or the decode fails with NoSignatures, then the message; a read past
  the end fails with Truncated. On success the cursor has advanced by the bytes
  consumed.
\<close>

definition ReadTransaction :: "byte list \<Rightarrow> txerror + (Transaction \<times> byte list)" where
  "ReadTransaction bs =
     (case ReadCompactLength bs of
        None \<Rightarrow> Inl Truncated
      | Some (ns, r1) \<Rightarrow>
          if ns = 0 then Inl NoSignatures
          else
            (case ReadSeq (ReadBytes 64) ns r1 of
               None \<Rightarrow> Inl Truncated
             | Some (sigs, r2) \<Rightarrow>
                 (case ReadMessage r2 of
                    None \<Rightarrow> Inl Truncated
                  | Some (m, r3) \<Rightarrow> Inr (\<lparr>Signatures = sigs, Message = m\<rparr>, r3))))"

definition Transaction_UnmarshalWithDecoder :: txdecoder where
  "Transaction_UnmarshalWithDecoder d =
     (case ReadTransaction (drop (dec_pos d) (dec_data d)) of
        Inl err \<Rightarrow> Inl err
      | Inr (tx, rest) \<Rightarrow> Inr (tx, d\<lparr>dec_pos := length (dec_data d) - length rest\<rparr>))"

text \<open>
  Modelled from the spec: the canonical textual form of an address, PublicKey.String of
  solana-go (not under src/). It is the base58 text of the 32 bytes, the form in which
  targetAddresses lists the watched addresses: a \<open>1\<close> for every leading zero byte, then
  the base58 digits of the big-endian number.
\<close>

definition base58_alphabet :: string where
  "base58_alphabet = ''123456789ABCDEFGHJKLMNPQRSTUVWXYZabcdefghijkmnopqrstuvwxyz''"

function base58_digits :: "nat \<Rightarrow> string \<Rightarrow> string" where
  "base58_digits n acc =
     (if n = 0 then acc else base58_digits (n div 58) (base58_alphabet ! (n mod 58) # acc))"
  by pat_completeness auto
termination
  by (relation "measure fst") auto

declare base58_digits.simps [simp del]

definition bytes_to_nat :: "byte list \<Rightarrow> nat" where
  "bytes_to_nat bs = foldl (\<lambda>n b. 256 * n + unat b) 0 bs"

definition PublicKey_String :: "PublicKey \<Rightarrow> string" where
  "PublicKey_String key =
     replicate (length (takeWhile (\<lambda>b. b = 0) key)) (CHR ''1'')
       @ base58_digits (bytes_to_nat key) []"

section \<open>Sequential decoding\<close>

text \<open>
  What it means that the first \<open>n\<close> transactions at a cursor decode: the decoder
  succeeds \<open>n\<close> times in a row, each time from where the one before stopped. The
  result is the transactions in order and the cursor after the last one. The claims
  about a transaction that fails after \<open>n\<close> good ones are stated with it.
\<close>

fun decodeSequence ::
  "txdecoder \<Rightarrow> nat \<Rightarrow> Decoder \<Rightarrow> (Transaction list \<times> Decoder) option" where
  "decodeSequence txdec 0 d = Some ([], d)"
| "decodeSequence txdec (Suc n) d =
     (case txdec d of
        Inl _ \<Rightarrow> None
      | Inr (tx, d') \<Rightarrow>
          (case decodeSequence txdec n d' of
             None \<Rightarrow> None
           | Some (txs, d'') \<Rightarrow> Some (tx # txs, d'')))"

section \<open>Example inputs\<close>

text \<open>
  A transaction of 134 bytes: one signature, the header (1, 0, 0), one account key, a
  recent blockhash and no instruction; and its decoded form.
\<close>

definition ex_tx_bytes :: "byte list" where
  "ex_tx_bytes =
     [1] @ replicate 64 9 @ [1, 0, 0] @ [1] @ replicate 32 3 @ replicate 32 4 @ [0]"

definition ex_tx :: Transaction where
  "ex_tx =
     \<lparr>Signatures = [replicate 64 9],
      Message = \<lparr>AccountKeys = [replicate 32 3],
                 Header = \<lparr>NumRequiredSignatures = 1, NumReadonlySignedAccounts = 0,
                           NumReadonlyUnsignedAccounts = 0\<rparr>,
                 RecentBlockhash = replicate 32 4, Instructions = []\<rparr>\<rparr>"

text \<open>
  A standard-framed entry that declares 5 hashes and 2 transactions: the example
  transaction, then 66 bytes where a second transaction is cut off (one signature, and
  a single byte where the 3-byte message header should be). The same entry behind an
  8-byte header.
\<close>

definition ex_standard_two :: "byte list" where
  "ex_standard_two =
     [5, 0, 0, 0, 0, 0, 0, 0] @ replicate 32 7 @ [2, 0, 0, 0, 0, 0, 0, 0]
       @ ex_tx_bytes @ [1] @ replicate 64 9 @ [1]"

definition ex_headered_two :: "byte list" where
  "ex_headered_two = replicate 8 170 @ ex_standard_two"


text \<open>
  Standard-framed buffers with unreasonable counts: 8 bytes that declare
  \<open>2^64 - 1\<close> hashes, and 48 bytes that declare 5 hashes and 10001 transactions.
\<close>

definition ex_huge_hashes :: "byte list" where
  "ex_huge_hashes = replicate 8 255"

definition ex_many_txns :: "byte list" where
  "ex_many_txns = [5, 0, 0, 0, 0, 0, 0, 0] @ replicate 32 7 @ [17, 39, 0, 0, 0, 0, 0, 0]"

text \<open>
  A standard-framed entry that declares 2 transactions and holds only the 134 bytes of
  the example transaction after the prefix.
\<close>

definition ex_standard_short :: "byte list" where
  "ex_standard_short =
     [5, 0, 0, 0, 0, 0, 0, 0] @ replicate 32 7 @ [2, 0, 0, 0, 0, 0, 0, 0] @ ex_tx_bytes"

text \<open>
  A standard-framed entry that declares \<open>2^64 - 1\<close> hashes and 1 transaction, the
  example one.
\<close>

definition ex_standard_huge_hashes :: "byte list" where
  "ex_standard_huge_hashes =
     replicate 8 255 @ replicate 32 7 @ [1, 0, 0, 0, 0, 0, 0, 0] @ ex_tx_bytes"

text \<open>The zero value of SolanaEntry, of the counters, and a frame of 47 bytes.\<close>

definition ex_empty_entry :: SolanaEntry where
  "ex_empty_entry = \<lparr>NumHashes = 0, Hash = replicate 32 0, Transactions = []\<rparr>"

definition ex_stats0 :: Stats where
  "ex_stats0 =
     \<lparr>totalEntries = 0, parsedEntries = 0, failedEntries = 0, totalTxs = 0, matchedTxs = 0,
      parseErrors = 0, reconnectCount = 0, lastSlot = 0\<rparr>"

definition ex_small_frame :: Entry where
  "ex_small_frame = \<lparr>Slot = 1000, Entries = replicate 47 0\<rparr>"

text \<open>
  The 32 bytes of the watched address of targetAddresses, and a transaction whose key
  table holds an unwatched key and then the watched one.
\<close>

definition ex_pump_key :: PublicKey where
  "ex_pump_key =
     [6, 197, 193, 206, 99, 141, 37, 103, 210, 100, 104, 176, 94, 185, 81, 209,
      162, 141, 204, 110, 18, 52, 130, 181, 198, 117, 20, 151, 112, 230, 43, 242]"

definition ex_pump_tx :: Transaction where
  "ex_pump_tx =
     \<lparr>Signatures = [replicate 64 9],
      Message = \<lparr>AccountKeys = [replicate 32 0, ex_pump_key],
                 Header = \<lparr>NumRequiredSignatures = 1, NumReadonlySignedAccounts = 0,
                           NumReadonlyUnsignedAccounts = 1\<rparr>,
                 RecentBlockhash = replicate 32 4, Instructions = []\<rparr>\<rparr>"

text \<open>
  A transaction without a signature whose key table holds the watched address.
\<close>

definition ex_unsigned_pump_tx :: Transaction where
  "ex_unsigned_pump_tx =
     \<lparr>Signatures = [],
      Message = \<lparr>AccountKeys = [ex_pump_key],
                 Header = \<lparr>NumRequiredSignatures = 0, NumReadonlySignedAccounts = 0,
                           NumReadonlyUnsignedAccounts = 0\<rparr>,
                 RecentBlockhash = replicate 32 4, Instructions = []\<rparr>\<rparr>"

text \<open>
  The access classification example: the header (2, 1, 1) over four account keys.
\<close>

definition ex_access_tx :: Transaction where
  "ex_access_tx =
     \<lparr>Signatures = [replicate 64 9, replicate 64 8],
      Message = \<lparr>AccountKeys = [replicate 32 1, replicate 32 2, replicate 32 3, replicate 32 4],
                 Header = \<lparr>NumRequiredSignatures = 2, NumReadonlySignedAccounts = 1,
                           NumReadonlyUnsignedAccounts = 1\<rparr>,
                 RecentBlockhash = replicate 32 4, Instructions = []\<rparr>\<rparr>"

text \<open>Counters with a stored slot of 1000, and a frame with slot 5.\<close>

definition ex_stats_slot1000 :: Stats where
  "ex_stats_slot1000 = ex_stats0\<lparr>totalEntries := 7, lastSlot := 1000\<rparr>"

definition ex_frame_slot5 :: Entry where
  "ex_frame_slot5 = \<lparr>Slot = 5, Entries = []\<rparr>"

text \<open>Counters after one entry was decoded that held no transaction.\<close>

definition ex_stats_no_txs :: Stats where
  "ex_stats_no_txs = ex_stats0\<lparr>totalEntries := 1, parsedEntries := 1\<rparr>"

section \<open>The cursor and the entry prefix\<close>

lemma ReadUint64_at:
  "dec_pos d + 8 \<le> length (dec_data d) \<Longrightarrow>
     ReadUint64 d = Inr (LittleEndian_Uint64 (take 8 (drop (dec_pos d) (dec_data d))),
                         d\<lparr>dec_pos := dec_pos d + 8\<rparr>)"
  by (simp add: ReadUint64_def Remaining_def)

lemma Read_at:
  "dec_pos d + n \<le> length (dec_data d) \<Longrightarrow>
     Read n d = Inr (take n (drop (dec_pos d) (dec_data d)), n, d\<lparr>dec_pos := dec_pos d + n\<rparr>)"
  by (simp add: Read_def)

text \<open>A count that passed the check against 10000 does not overflow when multiplied by 100.\<close>

lemma unat_times100:
  fixes n :: uint64
  assumes "n \<le> 10000"
  shows "unat (n * 100) = unat n * 100"
proof -
  have "unat n \<le> 10000" using assms by (simp add: word_le_nat_alt)
  then have "unat n * unat (100 :: uint64) < 2 ^ LENGTH(64)" by simp
  then have "unat (n * 100) = unat n * unat (100 :: uint64)"
    by (simp only: unat_mult_lem [THEN iffD1])
  then show ?thesis by simp
qed

text \<open>
  On a buffer of at least 48 bytes the three reads of the prefix succeed, and the
  standard decode is decided by the two counts and the transaction loop.
\<close>

lemma parseStandardEntry_prefix:
  assumes "48 \<le> length bs"
  shows "parseStandardEntry txdec bs =
     (let numHashes = LittleEndian_Uint64 (take 8 bs);
          numTxns = LittleEndian_Uint64 (take 8 (drop 40 bs)) in
      if numHashes > 1000000 then Inl (UnreasonableHashCount numHashes)
      else if numTxns > 10000 then Inl (UnreasonableTxnCount numTxns)
      else if unat (numTxns * 100) > length bs - 48 then Inl (InsufficientBytes numTxns)
      else (case readTransactions txdec (unat numTxns) 0 \<lparr>dec_data = bs, dec_pos = 48\<rparr> [] of
              Inl err \<Rightarrow> Inl err
            | Inr transactions \<Rightarrow>
                Inr \<lparr>NumHashes = numHashes, Hash = take 32 (drop 8 bs),
                     Transactions = transactions\<rparr>))"
  using assms
  by (simp add: parseStandardEntry_def NewBinDecoder_def ReadUint64_at Read_at Remaining_def Let_def)


section \<open>The transaction loops\<close>

text \<open>
  After \<open>n\<close> transactions that decode, either loop is where it would be had it started
  at the cursor after them, with the loop index advanced by \<open>n\<close> and the \<open>n\<close>
  transactions appended.
\<close>

lemma readTransactions_decodeSequence:
  "decodeSequence txdec n d = Some (txs, d') \<Longrightarrow>
     readTransactions txdec (n + k) i d acc = readTransactions txdec k (i + n) d' (acc @ txs)"
proof (induction n arbitrary: d i acc txs)
  case 0
  then show ?case by simp
next
  case (Suc n)
  from Suc.prems obtain tx d1 txs1 where
    tx: "txdec d = Inr (tx, d1)" and rest: "decodeSequence txdec n d1 = Some (txs1, d')"
    and txs: "txs = tx # txs1"
    by (auto split: sum.splits option.splits)
  from Suc.IH [OF rest, of "i + 1" "acc @ [tx]"] tx txs show ?case by simp
qed

lemma unmarshalTransactions_decodeSequence:
  "decodeSequence txdec n d = Some (txs, d') \<Longrightarrow>
     unmarshalTransactions txdec (n + k) i numTxns d acc =
       unmarshalTransactions txdec k (i + n) numTxns d' (acc @ txs)"
proof (induction n arbitrary: d i acc txs)
  case 0
  then show ?case by simp
next
  case (Suc n)
  from Suc.prems obtain tx d1 txs1 where
    tx: "txdec d = Inr (tx, d1)" and rest: "decodeSequence txdec n d1 = Some (txs1, d')"
    and txs: "txs = tx # txs1"
    by (auto split: sum.splits option.splits)
  from Suc.IH [OF rest, of "i + 1" "acc @ [tx]"] tx txs show ?case by (simp add: Let_def)
qed

lemma readTransactions_stops:
  assumes "decodeSequence txdec n d = Some (txs, d')" and "txdec d' = Inl err" and "n < m"
  shows "readTransactions txdec m 0 d [] =
           (if n = 0 then Inl (FirstTransactionCorrupt err) else Inr txs)"
proof -
  from \<open>n < m\<close> obtain k where m: "m = n + Suc k"
    by (auto dest!: less_imp_Suc_add)
  show ?thesis
    unfolding m readTransactions_decodeSequence [OF assms(1)]
    using assms(2) by simp
qed

lemma readTransactions_all:
  assumes "decodeSequence txdec n d = Some (txs, d')"
  shows "readTransactions txdec n 0 d [] = Inr txs"
  using readTransactions_decodeSequence [OF assms, of 0 0 "[]"] by simp

lemma unmarshalTransactions_stops:
  assumes "decodeSequence txdec n d = Some (txs, d')" and "txdec d' = Inl err" and "n < m"
  shows "unmarshalTransactions txdec m 0 numTxns d [] =
           (txs, Some (DecodeTransactionFailed (of_nat n + 1) numTxns (Position d') err))"
proof -
  from \<open>n < m\<close> obtain k where m: "m = n + Suc k"
    by (auto dest!: less_imp_Suc_add)
  show ?thesis
    unfolding m unmarshalTransactions_decodeSequence [OF assms(1)]
    using assms(2) by (simp add: Let_def)
qed

lemma unmarshalTransactions_all:
  assumes "decodeSequence txdec n d = Some (txs, d')"
  shows "unmarshalTransactions txdec n 0 numTxns d [] = (txs, None)"
  using unmarshalTransactions_decodeSequence [OF assms, of 0 0 numTxns "[]"] by simp

section \<open>Facts about the example inputs\<close>

lemma ex_headered_two_facts:
  "length ex_headered_two = 256"
  "LittleEndian_Uint64 (take 8 (drop 8 ex_headered_two)) = 5"
  "LittleEndian_Uint64 (take 8 (drop 48 ex_headered_two)) = 2"
  "take 32 (drop 16 ex_headered_two) = replicate 32 7"
  "decodeSequence Transaction_UnmarshalWithDecoder (Suc 0)
     \<lparr>dec_data = drop 8 ex_headered_two, dec_pos = 48\<rparr>
     = Some ([ex_tx], \<lparr>dec_data = drop 8 ex_headered_two, dec_pos = 182\<rparr>)"
  "Transaction_UnmarshalWithDecoder \<lparr>dec_data = drop 8 ex_headered_two, dec_pos = 182\<rparr>
     = Inl Truncated"
  by code_simp+


section \<open>The claims\<close>



text \<open>
  C2. On every buffer of at least 16 bytes the headered decode gives what the standard
  decode gives on the buffer without its first 8 bytes, entry or error.
\<close>

theorem parseJitoEntry_skips_header:
  "16 \<le> length bs \<Longrightarrow> parseJitoEntry txdec bs = parseStandardEntry txdec (drop 8 bs)"
  by (simp add: parseJitoEntry_def NewBinDecoder_def Remaining_def ReadUint64_def)

theorem parseJitoEntry_skips_header_witness:
  "16 \<le> length ex_headered_two
   \<and> parseJitoEntry Transaction_UnmarshalWithDecoder ex_headered_two
       = parseStandardEntry Transaction_UnmarshalWithDecoder (drop 8 ex_headered_two)
   \<and> parseStandardEntry Transaction_UnmarshalWithDecoder (drop 8 ex_headered_two)
       = Inr \<lparr>NumHashes = 5, Hash = replicate 32 7, Transactions = [ex_tx]\<rparr>"
proof -
  have len: "16 \<le> length ex_headered_two" by (simp add: ex_headered_two_facts)
  have "parseStandardEntry Transaction_UnmarshalWithDecoder (drop 8 ex_headered_two)
       = Inr \<lparr>NumHashes = 5, Hash = replicate 32 7, Transactions = [ex_tx]\<rparr>"
    by code_simp
  then show ?thesis
    using len parseJitoEntry_skips_header [OF len, of Transaction_UnmarshalWithDecoder]
    by simp
qed

text \<open>
  C3. The standard decode refuses unreasonable counts. When the buffer holds the 8 bytes
  of num_hashes and they declare more than 1,000,000, it fails with the hash-count
  error. When the buffer holds the 48 bytes of the prefix, num_hashes passes its check
  (the prefix is otherwise well-formed) and num_txns declares more than 10,000, it
  fails with the transaction-count error. Neither depends on the bytes after the
  prefix, and neither on the transaction decoder, which is not consulted.
\<close>

theorem parseStandardEntry_unreasonable_counts:
  "(8 \<le> length bs \<and> 1000000 < LittleEndian_Uint64 (take 8 bs) \<longrightarrow>
      parseStandardEntry txdec bs = Inl (UnreasonableHashCount (LittleEndian_Uint64 (take 8 bs))))
   \<and> (48 \<le> length bs \<and> LittleEndian_Uint64 (take 8 bs) \<le> 1000000
        \<and> 10000 < LittleEndian_Uint64 (take 8 (drop 40 bs)) \<longrightarrow>
      parseStandardEntry txdec bs =
        Inl (UnreasonableTxnCount (LittleEndian_Uint64 (take 8 (drop 40 bs)))))"
proof (intro conjI impI)
  assume "8 \<le> length bs \<and> 1000000 < LittleEndian_Uint64 (take 8 bs)"
  then show "parseStandardEntry txdec bs =
      Inl (UnreasonableHashCount (LittleEndian_Uint64 (take 8 bs)))"
    by (simp add: parseStandardEntry_def NewBinDecoder_def ReadUint64_at)
next
  assume a: "48 \<le> length bs \<and> LittleEndian_Uint64 (take 8 bs) \<le> 1000000
        \<and> 10000 < LittleEndian_Uint64 (take 8 (drop 40 bs))"
  then have "\<not> 1000000 < LittleEndian_Uint64 (take 8 bs)" by (simp add: not_less)
  with a show "parseStandardEntry txdec bs =
        Inl (UnreasonableTxnCount (LittleEndian_Uint64 (take 8 (drop 40 bs))))"
    by (simp add: parseStandardEntry_prefix Let_def)
qed

lemma ex_counts_facts:
  "length ex_huge_hashes = 8"
  "LittleEndian_Uint64 (take 8 ex_huge_hashes) = 18446744073709551615"
  "length ex_many_txns = 48"
  "LittleEndian_Uint64 (take 8 ex_many_txns) = 5"
  "LittleEndian_Uint64 (take 8 (drop 40 ex_many_txns)) = 10001"
  by code_simp+

theorem parseStandardEntry_unreasonable_counts_witness:
  "8 \<le> length ex_huge_hashes
   \<and> LittleEndian_Uint64 (take 8 ex_huge_hashes) = 18446744073709551615
   \<and> parseStandardEntry Transaction_UnmarshalWithDecoder ex_huge_hashes
       = Inl (UnreasonableHashCount 18446744073709551615)
   \<and> 48 \<le> length ex_many_txns
   \<and> LittleEndian_Uint64 (take 8 ex_many_txns) = 5
   \<and> LittleEndian_Uint64 (take 8 (drop 40 ex_many_txns)) = 10001
   \<and> parseStandardEntry Transaction_UnmarshalWithDecoder ex_many_txns
       = Inl (UnreasonableTxnCount 10001)"
proof -
  have h1: "8 \<le> length ex_huge_hashes \<and> 1000000 < LittleEndian_Uint64 (take 8 ex_huge_hashes)"
    unfolding ex_counts_facts by simp
  have h2: "48 \<le> length ex_many_txns \<and> LittleEndian_Uint64 (take 8 ex_many_txns) \<le> 1000000
        \<and> 10000 < LittleEndian_Uint64 (take 8 (drop 40 ex_many_txns))"
    unfolding ex_counts_facts by simp
  note claim1 = parseStandardEntry_unreasonable_counts
    [of ex_huge_hashes Transaction_UnmarshalWithDecoder, THEN conjunct1, THEN mp, OF h1]
  note claim2 = parseStandardEntry_unreasonable_counts
    [of ex_many_txns Transaction_UnmarshalWithDecoder, THEN conjunct2, THEN mp, OF h2]
  from claim1 have c1: "parseStandardEntry Transaction_UnmarshalWithDecoder ex_huge_hashes
       = Inl (UnreasonableHashCount 18446744073709551615)"
    unfolding ex_counts_facts .
  from claim2 have c2: "parseStandardEntry Transaction_UnmarshalWithDecoder ex_many_txns
       = Inl (UnreasonableTxnCount 10001)"
    unfolding ex_counts_facts .
  show ?thesis
    unfolding c1 c2 ex_counts_facts by simp
qed

text \<open>
  C4. On an entry whose payload is shorter than 48 bytes, processEntry returns the
  too-small error at once: nothing is decoded and the counters are as they were.
\<close>

theorem processEntry_too_small:
  "length (Entries entry) < 48 \<Longrightarrow>
     processEntry txdec String watch st entry = (Some (TooSmall (length (Entries entry))), st)"
  by (simp add: processEntry_def)

theorem processEntry_too_small_witness:
  "length (Entries ex_small_frame) < 48
   \<and> processEntry Transaction_UnmarshalWithDecoder PublicKey_String targetAddresses
        ex_stats0 ex_small_frame = (Some (TooSmall 47), ex_stats0)"
proof -
  have len: "length (Entries ex_small_frame) = 47" by (simp add: ex_small_frame_def)
  then have short: "length (Entries ex_small_frame) < 48" by simp
  show ?thesis
    using short len
      processEntry_too_small [OF short, of Transaction_UnmarshalWithDecoder PublicKey_String
        targetAddresses ex_stats0]
    by simp
qed

text \<open>
  C5. When the prefix passes both count checks and num_txns times 100 is more than the
  bytes that remain after the 48 bytes of the prefix, the standard decode fails with the
  insufficient-bytes error. The transaction decoder is not consulted: the result is the
  same for every decoder.
\<close>

theorem parseStandardEntry_insufficient_bytes:
  assumes "48 \<le> length bs"
    and "LittleEndian_Uint64 (take 8 bs) \<le> 1000000"
    and "LittleEndian_Uint64 (take 8 (drop 40 bs)) \<le> 10000"
    and "length bs - 48 < unat (LittleEndian_Uint64 (take 8 (drop 40 bs))) * 100"
  shows "parseStandardEntry txdec bs =
           Inl (InsufficientBytes (LittleEndian_Uint64 (take 8 (drop 40 bs))))"
  using assms
  by (simp add: parseStandardEntry_prefix Let_def not_less [symmetric] unat_times100)

lemma ex_standard_short_facts:
  "length ex_standard_short = 182"
  "LittleEndian_Uint64 (take 8 ex_standard_short) = 5"
  "LittleEndian_Uint64 (take 8 (drop 40 ex_standard_short)) = 2"
  by code_simp+

text \<open>
  The entry declares two transactions and holds 134 bytes after the prefix, fewer than
  200: it is refused, though the first transaction would decode.
\<close>

theorem parseStandardEntry_insufficient_bytes_witness:
  "48 \<le> length ex_standard_short
   \<and> LittleEndian_Uint64 (take 8 ex_standard_short) = 5
   \<and> LittleEndian_Uint64 (take 8 (drop 40 ex_standard_short)) = 2
   \<and> length ex_standard_short - 48 < unat (2 :: uint64) * 100
   \<and> parseStandardEntry Transaction_UnmarshalWithDecoder ex_standard_short
       = Inl (InsufficientBytes 2)"
  using parseStandardEntry_insufficient_bytes [of ex_standard_short Transaction_UnmarshalWithDecoder]
  by (simp add: ex_standard_short_facts)

section \<open>The address matcher\<close>

text \<open>
  The loop over the key table, from any map found so far: with a signature to print,
  it ends with the watched keys of the table added under their labels.
\<close>

lemma containsAddresses_loop_found:
  assumes "Signatures tx \<noteq> []"
  shows "\<exists>found'. containsAddresses_loop String watch tx keys found = Inr found'
           \<and> (\<forall>k. Mapping.lookup found' k =
                 (if k \<in> String ` set keys \<and> Mapping.lookup watch k \<noteq> None
                  then Mapping.lookup watch k else Mapping.lookup found k))"
proof (induction keys arbitrary: found)
  case Nil
  show ?case by simp
next
  case (Cons key keys)
  show ?case
  proof (cases "Mapping.lookup watch (String key)")
    case None
    from Cons.IH [of found] obtain found' where
      run: "containsAddresses_loop String watch tx keys found = Inr found'"
      and look: "\<And>k. Mapping.lookup found' k =
                 (if k \<in> String ` set keys \<and> Mapping.lookup watch k \<noteq> None
                  then Mapping.lookup watch k else Mapping.lookup found k)"
      by blast
    have "containsAddresses_loop String watch tx (key # keys) found = Inr found'"
      using None run by simp
    moreover have "Mapping.lookup found' k =
        (if k \<in> String ` set (key # keys) \<and> Mapping.lookup watch k \<noteq> None
         then Mapping.lookup watch k else Mapping.lookup found k)" for k
      using None look [of k] by auto
    ultimately show ?thesis by blast
  next
    case (Some desc)
    from Cons.IH [of "Mapping.update (String key) desc found"] obtain found' where
      run: "containsAddresses_loop String watch tx keys (Mapping.update (String key) desc found)
              = Inr found'"
      and look: "\<And>k. Mapping.lookup found' k =
                 (if k \<in> String ` set keys \<and> Mapping.lookup watch k \<noteq> None
                  then Mapping.lookup watch k
                  else Mapping.lookup (Mapping.update (String key) desc found) k)"
      by blast
    have "containsAddresses_loop String watch tx (key # keys) found = Inr found'"
      using Some run assms by simp
    moreover have "Mapping.lookup found' k =
        (if k \<in> String ` set (key # keys) \<and> Mapping.lookup watch k \<noteq> None
         then Mapping.lookup watch k else Mapping.lookup found k)" for k
      using Some look [of k] by (auto simp: lookup_update')
    ultimately show ?thesis by blast
  qed
qed

text \<open>Over a key table without a watched key the loop changes nothing and cannot panic.\<close>

lemma containsAddresses_loop_unwatched:
  "\<forall>key \<in> set keys. Mapping.lookup watch (String key) = None \<Longrightarrow>
     containsAddresses_loop String watch tx keys found = Inr found"
  by (induction keys) simp_all

text \<open>The base58 text of the example keys, evaluated step by step.\<close>

lemma ex_key_lists:
  "replicate 32 (0 :: byte) = [0,0,0,0,0,0,0,0,0,0,0,0,0,0,0,0,0,0,0,0,0,0,0,0,0,0,0,0,0,0,0,0]"
  "replicate 32 (3 :: byte) = [3,3,3,3,3,3,3,3,3,3,3,3,3,3,3,3,3,3,3,3,3,3,3,3,3,3,3,3,3,3,3,3]"
  "replicate 32 (CHR ''1'') = ''11111111111111111111111111111111''"
  by code_simp+

lemma ex_key_numbers:
  "bytes_to_nat ex_pump_key
     = 3063283564538865074251279784846623047333927018865980620071348739894533303282"
  "bytes_to_nat (replicate 32 3)
     = 1362259873380190534394952764808093033567882172536947812228912753034272113411"
  "bytes_to_nat (replicate 32 0) = 0"
  by (simp_all add: bytes_to_nat_def ex_pump_key_def ex_key_lists)

lemma ex_key_zeros:
  "length (takeWhile (\<lambda>b. b = 0) ex_pump_key) = 0"
  "length (takeWhile (\<lambda>b. b = 0) (replicate 32 (3 :: byte))) = 0"
  "length (takeWhile (\<lambda>b. b = 0) (replicate 32 (0 :: byte))) = 32"
  by (simp_all add: ex_pump_key_def ex_key_lists)

lemma ex_key_strings:
  "PublicKey_String ex_pump_key = ''TSLvdd1pWpHVjahSpsvCXUbgwsL3JAcvokwaKt1eokM''"
  "PublicKey_String (replicate 32 0) = ''11111111111111111111111111111111''"
  "PublicKey_String (replicate 32 3) = ''CktRuQ2mttgRGkXJtyksdKHjUdc2C4TgDzyB98oEzy8''"
  unfolding PublicKey_String_def ex_key_numbers ex_key_zeros
  by (simp_all add: base58_digits.simps base58_alphabet_def ex_key_lists)
text \<open>
  What containsAddresses returns where it returns. For every message and watch-list,
  of a transaction that has a signature, it is the map that holds a string exactly
  when it is the text of an account key of the message and is in the watch-list, with
  the watch-list's label. For a message without a watched key the result is the empty
  map, whatever the transaction.
\<close>

lemma containsAddresses_exact:
  "(Signatures tx \<noteq> [] \<longrightarrow>
      (\<exists>found. containsAddresses String watch message tx = Inr found
         \<and> (\<forall>k. Mapping.lookup found k =
               (if k \<in> String ` set (AccountKeys message) then Mapping.lookup watch k
                else None))))
   \<and> ((\<forall>key \<in> set (AccountKeys message). Mapping.lookup watch (String key) = None) \<longrightarrow>
        containsAddresses String watch message tx = Inr Mapping.empty)"
proof (intro conjI impI)
  assume sig: "Signatures tx \<noteq> []"
  from containsAddresses_loop_found [OF sig, of String watch "AccountKeys message" Mapping.empty]
  obtain found where
    run: "containsAddresses_loop String watch tx (AccountKeys message) Mapping.empty = Inr found"
    and look: "\<And>k. Mapping.lookup found k =
                 (if k \<in> String ` set (AccountKeys message) \<and> Mapping.lookup watch k \<noteq> None
                  then Mapping.lookup watch k else Mapping.lookup Mapping.empty k)"
    by blast
  have "Mapping.lookup found k =
      (if k \<in> String ` set (AccountKeys message) then Mapping.lookup watch k else None)" for k
    using look [of k] by auto
  with run show "\<exists>found. containsAddresses String watch message tx = Inr found
         \<and> (\<forall>k. Mapping.lookup found k =
               (if k \<in> String ` set (AccountKeys message) then Mapping.lookup watch k
                else None))"
    by (auto simp: containsAddresses_def)
next
  assume "\<forall>key \<in> set (AccountKeys message). Mapping.lookup watch (String key) = None"
  then show "containsAddresses String watch message tx = Inr Mapping.empty"
    by (simp add: containsAddresses_def containsAddresses_loop_unwatched)
qed

text \<open>
  The watched address of targetAddresses in second place of a key table is found with
  its label; the key table of the example transaction holds no watched address.
\<close>

lemma containsAddresses_exact_example:
  "Signatures ex_pump_tx \<noteq> []
   \<and> (\<exists>found. containsAddresses PublicKey_String targetAddresses (Message ex_pump_tx) ex_pump_tx
                 = Inr found
         \<and> Mapping.lookup found ''TSLvdd1pWpHVjahSpsvCXUbgwsL3JAcvokwaKt1eokM'' = Some ''pump''
         \<and> Mapping.lookup found ''11111111111111111111111111111111'' = None)
   \<and> Mapping.lookup targetAddresses (PublicKey_String (replicate 32 3)) = None
   \<and> containsAddresses PublicKey_String targetAddresses (Message ex_tx) ex_tx
       = Inr Mapping.empty"
proof -
  have sig: "Signatures ex_pump_tx \<noteq> []" by (simp add: ex_pump_tx_def)
  have keys: "AccountKeys (Message ex_pump_tx) = [replicate 32 0, ex_pump_key]"
    by (simp add: ex_pump_tx_def)
  from containsAddresses_exact
    [of ex_pump_tx PublicKey_String targetAddresses "Message ex_pump_tx",
      THEN conjunct1, THEN mp, OF sig]
  obtain found where
    run: "containsAddresses PublicKey_String targetAddresses (Message ex_pump_tx) ex_pump_tx
            = Inr found"
    and look: "\<And>k. Mapping.lookup found k =
        (if k \<in> PublicKey_String ` set (AccountKeys (Message ex_pump_tx))
         then Mapping.lookup targetAddresses k else None)"
    by blast
  have pump: "Mapping.lookup found ''TSLvdd1pWpHVjahSpsvCXUbgwsL3JAcvokwaKt1eokM'' = Some ''pump''"
    unfolding look keys by (simp add: ex_key_strings targetAddresses_def)
  have system: "Mapping.lookup found ''11111111111111111111111111111111'' = None"
    unfolding look keys by (simp add: ex_key_strings targetAddresses_def)
  have unwatched: "Mapping.lookup targetAddresses (PublicKey_String (replicate 32 3)) = None"
    by (simp add: ex_key_strings targetAddresses_def)
  then have "\<forall>key \<in> set (AccountKeys (Message ex_tx)).
      Mapping.lookup targetAddresses (PublicKey_String key) = None"
    by (simp add: ex_tx_def)
  with containsAddresses_exact
    [of ex_tx PublicKey_String targetAddresses "Message ex_tx", THEN conjunct2]
  have none: "containsAddresses PublicKey_String targetAddresses (Message ex_tx) ex_tx
       = Inr Mapping.empty"
    by (rule mp)
  have "\<exists>found. containsAddresses PublicKey_String targetAddresses (Message ex_pump_tx) ex_pump_tx
                 = Inr found
         \<and> Mapping.lookup found ''TSLvdd1pWpHVjahSpsvCXUbgwsL3JAcvokwaKt1eokM'' = Some ''pump''
         \<and> Mapping.lookup found ''11111111111111111111111111111111'' = None"
    by (intro exI [of _ found] conjI run pump system)
  then show ?thesis
    by (intro conjI sig unwatched none)
qed

text \<open>
  C6. The address matcher is to return the map of the watched account keys of the
  message, each under its label. It does not on every transaction it is handed: at a
  watched key it first prints \<open>tx.Signatures[0]\<close> (line 520), with no check that there is
  a signature. On the transaction without a signature whose key table holds the
  watched address of targetAddresses, the claim promises the map with that address
  under \<open>pump\<close>; the code panics with an index out of range, and so does the loop of
  processEntry that called it, with the counters as they were.
\<close>

theorem containsAddresses_panics_without_signature:
  "Signatures ex_unsigned_pump_tx = []
   \<and> AccountKeys (Message ex_unsigned_pump_tx) = [ex_pump_key]
   \<and> Mapping.lookup targetAddresses (PublicKey_String ex_pump_key) = Some ''pump''
   \<and> containsAddresses PublicKey_String targetAddresses (Message ex_unsigned_pump_tx)
        ex_unsigned_pump_tx = Inl IndexOutOfRange
   \<and> processTransactions PublicKey_String targetAddresses ex_stats0 [ex_unsigned_pump_tx]
       = (Some IndexOutOfRange, ex_stats0)"
proof -
  have watched: "Mapping.lookup targetAddresses (PublicKey_String ex_pump_key) = Some ''pump''"
    by (simp add: ex_key_strings targetAddresses_def)
  have panic: "containsAddresses PublicKey_String targetAddresses (Message ex_unsigned_pump_tx)
        ex_unsigned_pump_tx = Inl IndexOutOfRange"
    using watched by (simp add: containsAddresses_def ex_unsigned_pump_tx_def)
  have "processTransactions PublicKey_String targetAddresses ex_stats0 [ex_unsigned_pump_tx]
       = (Some IndexOutOfRange, ex_stats0)"
    using panic by simp
  with watched panic show ?thesis by (simp add: ex_unsigned_pump_tx_def)
qed

section \<open>The access classification\<close>

text \<open>
  C7. For every transaction and every account index \<open>i\<close>, the labels computed for the
  account line are: signer exactly when \<open>i\<close> is below num_required_signatures; a
  signer is writable exactly when \<open>i\<close> is below num_required_signatures minus
  num_readonly_signed; a non-signer is writable exactly when \<open>i\<close> is below the number
  of account keys minus the sum of num_readonly_signed and num_readonly_unsigned; every
  other index is read-only. The arithmetic is that of Go's int: a difference may be
  negative, and then no index is below it.
\<close>

theorem accountLine_classification:
  "(isSigner (accountLine tx i)
      \<longleftrightarrow> int i < uint (NumRequiredSignatures (Header (Message tx))))
   \<and> (isSigner (accountLine tx i) \<longrightarrow>
        (isWritable (accountLine tx i)
           \<longleftrightarrow> int i < uint (NumRequiredSignatures (Header (Message tx)))
                         - uint (NumReadonlySignedAccounts (Header (Message tx)))))
   \<and> (\<not> isSigner (accountLine tx i) \<longrightarrow>
        (isWritable (accountLine tx i)
           \<longleftrightarrow> int i < int (length (AccountKeys (Message tx)))
                         - (uint (NumReadonlySignedAccounts (Header (Message tx)))
                            + uint (NumReadonlyUnsignedAccounts (Header (Message tx))))))"
  by (simp add: accountLine_def Let_def)

text \<open>
  The header (2, 1, 1) over four keys: index 0 is a writable signer, index 1 a
  read-only signer; indices 2 and 3 are read-only non-signers, since neither is below
  4 - (1 + 1) = 2.
\<close>

theorem accountLine_classification_witness:
  "isSigner (accountLine ex_access_tx 0) \<and> isWritable (accountLine ex_access_tx 0)
   \<and> isSigner (accountLine ex_access_tx 1) \<and> \<not> isWritable (accountLine ex_access_tx 1)
   \<and> \<not> isSigner (accountLine ex_access_tx 2) \<and> \<not> isWritable (accountLine ex_access_tx 2)
   \<and> \<not> isSigner (accountLine ex_access_tx 3) \<and> \<not> isWritable (accountLine ex_access_tx 3)
   \<and> printTransactionDetails ex_access_tx =
        Inr [\<lparr>isWritable = True, isSigner = True, isPayer = True\<rparr>,
             \<lparr>isWritable = False, isSigner = True, isPayer = False\<rparr>,
             \<lparr>isWritable = False, isSigner = False, isPayer = False\<rparr>,
             \<lparr>isWritable = False, isSigner = False, isPayer = False\<rparr>]"
proof -
  have lines: "printTransactionDetails ex_access_tx =
        Inr [\<lparr>isWritable = True, isSigner = True, isPayer = True\<rparr>,
             \<lparr>isWritable = False, isSigner = True, isPayer = False\<rparr>,
             \<lparr>isWritable = False, isSigner = False, isPayer = False\<rparr>,
             \<lparr>isWritable = False, isSigner = False, isPayer = False\<rparr>]"
    by code_simp
  show ?thesis
    using accountLine_classification [of ex_access_tx 0]
      accountLine_classification [of ex_access_tx 1]
      accountLine_classification [of ex_access_tx 2]
      accountLine_classification [of ex_access_tx 3]
      lines
    by (simp add: ex_access_tx_def)
qed

section \<open>The stored slot\<close>

lemma recvLoop_snoc:
  "recvLoop st (frames @ [resp]) = fst (recvStep (recvLoop st frames) resp)"
  by (simp add: recvLoop_def)

text \<open>
  C8, as amended. The stored slot is the slot of the frame processed last, not a
  high-water mark: after a frame with slot \<open>s\<close> the stored value is \<open>s\<close>, whatever it
  was before, so after any sequence of frames it is the slot of the last one.
\<close>

theorem lastSlot_is_last_frame:
  "lastSlot (fst (recvStep st resp)) = Slot resp
   \<and> lastSlot (recvLoop st (frames @ [resp])) = Slot resp"
  by (simp add: recvLoop_snoc) (simp add: recvStep_def Let_def)

theorem lastSlot_is_last_frame_witness:
  "lastSlot (fst (recvStep ex_stats_slot1000 ex_frame_slot5)) = 5
   \<and> lastSlot (recvLoop ex_stats0
        [\<lparr>Slot = 1000, Entries = []\<rparr>, \<lparr>Slot = 1015, Entries = []\<rparr>, ex_frame_slot5]) = 5"
  using lastSlot_is_last_frame [of ex_stats_slot1000 ex_frame_slot5 "[]"]
    lastSlot_is_last_frame [of ex_stats0 ex_frame_slot5
      "[\<lparr>Slot = 1000, Entries = []\<rparr>, \<lparr>Slot = 1015, Entries = []\<rparr>]"]
  by (simp add: ex_frame_slot5_def)

text \<open>
  C8 as stated fails: with 1000 stored, a frame with slot 5 leaves 5 stored, which is
  not the maximum of the two and is less than before.
\<close>

theorem lastSlot_high_water_counterexample:
  "lastSlot ex_stats_slot1000 = 1000
   \<and> Slot ex_frame_slot5 = 5
   \<and> lastSlot (fst (recvStep ex_stats_slot1000 ex_frame_slot5)) = 5
   \<and> lastSlot (fst (recvStep ex_stats_slot1000 ex_frame_slot5))
        \<noteq> max (lastSlot ex_stats_slot1000) (Slot ex_frame_slot5)
   \<and> lastSlot (fst (recvStep ex_stats_slot1000 ex_frame_slot5)) <s lastSlot ex_stats_slot1000"
  by (simp add: recvStep_def Let_def ex_stats_slot1000_def ex_stats0_def ex_frame_slot5_def
      word_sless_alt)

section \<open>The statistics\<close>

text \<open>
  The tick in full. Nothing is printed until an entry has been counted. After that
  the success rate is a quotient by the positive \<open>totalEntries\<close>, and the match rate is
  a quotient by \<open>totalTxs\<close>, which nothing compares with 0: when it is 0 the match rate
  is NaN or an infinity.
\<close>

lemma printStats_tick_cases:
  "printStats_tick st =
     (if 0 <s totalEntries st then
        Some \<lparr>successRate = Finite,
              matchRate =
                (if totalTxs st = 0 then
                   (if matchedTxs st = 0 then NaN
                    else if 0 <s matchedTxs st then PosInf else NegInf)
                 else Finite)\<rparr>
      else None)"
proof (cases "0 <s totalEntries st")
  case False
  then show ?thesis by (simp add: printStats_tick_def Let_def)
next
  case True
  then have "sint (totalEntries st) \<noteq> 0" by (auto simp: word_sless_alt)
  with True show ?thesis
    by (simp add: printStats_tick_def Let_def float64_div_def word_sless_alt signed_eq_0_iff)
qed

text \<open>
  C9. The snapshot is to compute its rates without dividing by zero, reporting 0% for a
  zero denominator. The code guards the success rate, whose divisor is the counter
  tested by \<open>total > 0\<close>, but not the match rate: after one decoded entry that held no
  transaction the tick prints a report, and its match rate is the float64 quotient
  0 / 0, which is NaN and not 0.
\<close>

theorem printStats_tick_zero_txs:
  "0 <s totalEntries ex_stats_no_txs
   \<and> totalTxs ex_stats_no_txs = 0
   \<and> printStats_tick ex_stats_no_txs = Some \<lparr>successRate = Finite, matchRate = NaN\<rparr>"
  by (simp add: printStats_tick_def Let_def float64_div_def ex_stats_no_txs_def ex_stats0_def
      word_sless_alt)

section \<open>The strict method\<close>

text \<open>
  On a buffer of at least 48 bytes the three reads of the method succeed as well; it
  has no check of num_hashes.
\<close>

lemma UnmarshalWithDecoder_prefix:
  assumes "48 \<le> length bs"
  shows "UnmarshalWithDecoder txdec en (NewBinDecoder bs) =
     (let numHashes = LittleEndian_Uint64 (take 8 bs);
          numTxns = LittleEndian_Uint64 (take 8 (drop 40 bs));
          en2 = en\<lparr>NumHashes := numHashes, Hash := take 32 (drop 8 bs)\<rparr> in
      if numTxns > 10000 then (en2, Some (UnreasonableNumTxns numTxns))
      else if unat (numTxns * 100) > length bs - 48
      then (en2, Some (NotEnoughBytes numTxns (numTxns * 100) (length bs - 48)))
      else (case unmarshalTransactions txdec (unat numTxns) 0 numTxns
                   \<lparr>dec_data = bs, dec_pos = 48\<rparr> [] of
              (transactions, err) \<Rightarrow> (en2\<lparr>Transactions := transactions\<rparr>, err)))"
  using assms
  by (simp add: UnmarshalWithDecoder_def NewBinDecoder_def ReadUint64_at Read_at Remaining_def
      Let_def)

lemma ex_standard_two_facts:
  "length ex_standard_two = 248"
  "LittleEndian_Uint64 (take 8 ex_standard_two) = 5"
  "LittleEndian_Uint64 (take 8 (drop 40 ex_standard_two)) = 2"
  "take 32 (drop 8 ex_standard_two) = replicate 32 7"
  "decodeSequence Transaction_UnmarshalWithDecoder (Suc 0)
     \<lparr>dec_data = ex_standard_two, dec_pos = 48\<rparr>
     = Some ([ex_tx], \<lparr>dec_data = ex_standard_two, dec_pos = 182\<rparr>)"
  "Transaction_UnmarshalWithDecoder \<lparr>dec_data = ex_standard_two, dec_pos = 182\<rparr>
     = Inl Truncated"
  by code_simp+

lemma ex_standard_huge_hashes_facts:
  "length ex_standard_huge_hashes = 182"
  "LittleEndian_Uint64 (take 8 ex_standard_huge_hashes) = 18446744073709551615"
  "LittleEndian_Uint64 (take 8 (drop 40 ex_standard_huge_hashes)) = 1"
  "take 32 (drop 8 ex_standard_huge_hashes) = replicate 32 7"
  "decodeSequence Transaction_UnmarshalWithDecoder (Suc 0)
     \<lparr>dec_data = ex_standard_huge_hashes, dec_pos = 48\<rparr>
     = Some ([ex_tx], \<lparr>dec_data = ex_standard_huge_hashes, dec_pos = 182\<rparr>)"
  by code_simp+

text \<open>
  C10, as amended. The method SolanaEntry.UnmarshalWithDecoder is strict and has no
  bound on num_hashes, but it fills its receiver in place. Take a buffer of at least
  48 bytes whose num_txns passes the checks of the count and of the remaining length,
  with \<open>numHashes\<close> and \<open>numTxns\<close> the declared counts and \<open>d0\<close> the cursor at the first
  transaction.
  \<^item> If the first \<open>i\<close> transactions decode and transaction \<open>i\<close>, one of the declared
    ones, does not, the method returns the error of that transaction, for \<open>i = 0\<close>
    and for \<open>i > 0\<close> alike, and leaves in its receiver num_hashes, the hash and the
    \<open>i\<close> transactions decoded before the failure.
  \<^item> On the same input with \<open>i > 0\<close> (and a num_hashes it accepts) parseStandardEntry
    succeeds, with the \<open>i\<close> transactions.
  \<^item> If all declared transactions decode, the method returns no error and has stored
    num_hashes, the hash and the transactions in its receiver, whatever num_hashes is.
  \<^item> parseStandardEntry refuses the buffer when num_hashes is above 1,000,000.
\<close>

theorem UnmarshalWithDecoder_strict:
  fixes bs :: "byte list" and txdec :: txdecoder
  defines "numHashes \<equiv> LittleEndian_Uint64 (take 8 bs)"
    and "numTxns \<equiv> LittleEndian_Uint64 (take 8 (drop 40 bs))"
    and "d0 \<equiv> \<lparr>dec_data = bs, dec_pos = 48\<rparr>"
  assumes len: "48 \<le> length bs"
    and count: "numTxns \<le> 10000"
    and enough: "unat numTxns * 100 \<le> length bs - 48"
  shows "(i < unat numTxns \<and> decodeSequence txdec i d0 = Some (txs, d') \<and> txdec d' = Inl err \<longrightarrow>
           UnmarshalWithDecoder txdec en (NewBinDecoder bs)
             = (en\<lparr>NumHashes := numHashes, Hash := take 32 (drop 8 bs), Transactions := txs\<rparr>,
                Some (DecodeTransactionFailed (of_nat i + 1) numTxns (Position d') err)))
    \<and> (0 < i \<and> i < unat numTxns \<and> decodeSequence txdec i d0 = Some (txs, d')
          \<and> txdec d' = Inl err \<and> numHashes \<le> 1000000 \<longrightarrow>
           parseStandardEntry txdec bs =
             Inr \<lparr>NumHashes = numHashes, Hash = take 32 (drop 8 bs), Transactions = txs\<rparr>)
    \<and> (decodeSequence txdec (unat numTxns) d0 = Some (txs, d') \<longrightarrow>
           UnmarshalWithDecoder txdec en (NewBinDecoder bs)
             = (en\<lparr>NumHashes := numHashes, Hash := take 32 (drop 8 bs), Transactions := txs\<rparr>,
                None))
    \<and> (1000000 < numHashes \<longrightarrow>
           parseStandardEntry txdec bs = Inl (UnreasonableHashCount numHashes))"
proof -
  have ok: "\<not> numTxns > 10000" "\<not> unat (numTxns * 100) > length bs - 48"
    using count enough by (simp_all add: not_less unat_times100)
  have nh: "LittleEndian_Uint64 (take 8 bs) = numHashes"
    and nt: "LittleEndian_Uint64 (take 8 (drop 40 bs)) = numTxns"
    by (simp_all add: numHashes_def numTxns_def)
  have unmarshal: "UnmarshalWithDecoder txdec en (NewBinDecoder bs) =
      (case unmarshalTransactions txdec (unat numTxns) 0 numTxns d0 [] of
         (transactions, err) \<Rightarrow>
           (en\<lparr>NumHashes := numHashes, Hash := take 32 (drop 8 bs),
               Transactions := transactions\<rparr>, err))"
    unfolding UnmarshalWithDecoder_prefix [OF len] Let_def nh nt d0_def
    using ok by simp
  have std: "parseStandardEntry txdec bs =
      (if numHashes > 1000000 then Inl (UnreasonableHashCount numHashes)
       else (case readTransactions txdec (unat numTxns) 0 d0 [] of
               Inl err \<Rightarrow> Inl err
             | Inr transactions \<Rightarrow>
                 Inr \<lparr>NumHashes = numHashes, Hash = take 32 (drop 8 bs),
                      Transactions = transactions\<rparr>))"
    unfolding parseStandardEntry_prefix [OF len] Let_def nh nt d0_def
    using ok by simp
  show ?thesis
  proof (intro conjI impI)
    assume a: "i < unat numTxns \<and> decodeSequence txdec i d0 = Some (txs, d') \<and> txdec d' = Inl err"
    then have "unmarshalTransactions txdec (unat numTxns) 0 numTxns d0 [] =
        (txs, Some (DecodeTransactionFailed (of_nat i + 1) numTxns (Position d') err))"
      using unmarshalTransactions_stops [of txdec i d0 txs d' err "unat numTxns" numTxns] by simp
    then show "UnmarshalWithDecoder txdec en (NewBinDecoder bs)
             = (en\<lparr>NumHashes := numHashes, Hash := take 32 (drop 8 bs), Transactions := txs\<rparr>,
                Some (DecodeTransactionFailed (of_nat i + 1) numTxns (Position d') err))"
      unfolding unmarshal by simp
  next
    assume a: "0 < i \<and> i < unat numTxns \<and> decodeSequence txdec i d0 = Some (txs, d')
          \<and> txdec d' = Inl err \<and> numHashes \<le> 1000000"
    then have "readTransactions txdec (unat numTxns) 0 d0 [] = Inr txs"
      using readTransactions_stops [of txdec i d0 txs d' err "unat numTxns"] by simp
    moreover from a have "\<not> numHashes > 1000000" by (simp add: not_less)
    ultimately show "parseStandardEntry txdec bs =
             Inr \<lparr>NumHashes = numHashes, Hash = take 32 (drop 8 bs), Transactions = txs\<rparr>"
      unfolding std by simp
  next
    assume "decodeSequence txdec (unat numTxns) d0 = Some (txs, d')"
    then have "unmarshalTransactions txdec (unat numTxns) 0 numTxns d0 [] = (txs, None)"
      by (rule unmarshalTransactions_all)
    then show "UnmarshalWithDecoder txdec en (NewBinDecoder bs)
             = (en\<lparr>NumHashes := numHashes, Hash := take 32 (drop 8 bs), Transactions := txs\<rparr>,
                None)"
      unfolding unmarshal by simp
  next
    assume "1000000 < numHashes"
    then show "parseStandardEntry txdec bs = Inl (UnreasonableHashCount numHashes)"
      unfolding std by simp
  qed
qed

text \<open>
  The entry with two declared transactions, of which the second is cut off: the method
  returns the error of transaction 2 of 2, at position 182, and its receiver holds the
  first transaction, where the standard decode returns the entry with the first
  transaction. The entry that declares \<open>2^64 - 1\<close> hashes and one good transaction:
  the method accepts it, the standard decode refuses it.
\<close>

theorem UnmarshalWithDecoder_strict_witness:
  "48 \<le> length ex_standard_two
   \<and> LittleEndian_Uint64 (take 8 (drop 40 ex_standard_two)) = 2
   \<and> decodeSequence Transaction_UnmarshalWithDecoder (Suc 0)
        \<lparr>dec_data = ex_standard_two, dec_pos = 48\<rparr>
       = Some ([ex_tx], \<lparr>dec_data = ex_standard_two, dec_pos = 182\<rparr>)
   \<and> Transaction_UnmarshalWithDecoder \<lparr>dec_data = ex_standard_two, dec_pos = 182\<rparr>
       = Inl Truncated
   \<and> UnmarshalWithDecoder Transaction_UnmarshalWithDecoder ex_empty_entry
        (NewBinDecoder ex_standard_two)
       = (\<lparr>NumHashes = 5, Hash = replicate 32 7, Transactions = [ex_tx]\<rparr>,
          Some (DecodeTransactionFailed 2 2 182 Truncated))
   \<and> parseStandardEntry Transaction_UnmarshalWithDecoder ex_standard_two
       = Inr \<lparr>NumHashes = 5, Hash = replicate 32 7, Transactions = [ex_tx]\<rparr>
   \<and> 48 \<le> length ex_standard_huge_hashes
   \<and> LittleEndian_Uint64 (take 8 ex_standard_huge_hashes) = 18446744073709551615
   \<and> LittleEndian_Uint64 (take 8 (drop 40 ex_standard_huge_hashes)) = 1
   \<and> UnmarshalWithDecoder Transaction_UnmarshalWithDecoder ex_empty_entry
        (NewBinDecoder ex_standard_huge_hashes)
       = (\<lparr>NumHashes = 18446744073709551615, Hash = replicate 32 7, Transactions = [ex_tx]\<rparr>,
          None)
   \<and> parseStandardEntry Transaction_UnmarshalWithDecoder ex_standard_huge_hashes
       = Inl (UnreasonableHashCount 18446744073709551615)"
proof -
  have len2: "48 \<le> length ex_standard_two" by (simp add: ex_standard_two_facts)
  have count2: "LittleEndian_Uint64 (take 8 (drop 40 ex_standard_two)) \<le> 10000"
    by (simp add: ex_standard_two_facts)
  have enough2: "unat (LittleEndian_Uint64 (take 8 (drop 40 ex_standard_two))) * 100
      \<le> length ex_standard_two - 48"
    by (simp add: ex_standard_two_facts)
  note two = UnmarshalWithDecoder_strict [OF len2 count2 enough2,
      where txdec = Transaction_UnmarshalWithDecoder and i = "Suc 0" and txs = "[ex_tx]"
        and d' = "\<lparr>dec_data = ex_standard_two, dec_pos = 182\<rparr>" and err = Truncated
        and en = ex_empty_entry]
  have strict: "UnmarshalWithDecoder Transaction_UnmarshalWithDecoder ex_empty_entry
        (NewBinDecoder ex_standard_two)
       = (\<lparr>NumHashes = 5, Hash = replicate 32 7, Transactions = [ex_tx]\<rparr>,
          Some (DecodeTransactionFailed 2 2 182 Truncated))"
    using two [THEN conjunct1]
    by (simp add: ex_standard_two_facts ex_empty_entry_def Position_def
        del: decodeSequence.simps)
  have lenient: "parseStandardEntry Transaction_UnmarshalWithDecoder ex_standard_two
       = Inr \<lparr>NumHashes = 5, Hash = replicate 32 7, Transactions = [ex_tx]\<rparr>"
    using two [THEN conjunct2, THEN conjunct1]
    by (simp add: ex_standard_two_facts del: decodeSequence.simps)
  have len1: "48 \<le> length ex_standard_huge_hashes"
    by (simp add: ex_standard_huge_hashes_facts)
  have count1: "LittleEndian_Uint64 (take 8 (drop 40 ex_standard_huge_hashes)) \<le> 10000"
    by (simp add: ex_standard_huge_hashes_facts)
  have enough1: "unat (LittleEndian_Uint64 (take 8 (drop 40 ex_standard_huge_hashes))) * 100
      \<le> length ex_standard_huge_hashes - 48"
    by (simp add: ex_standard_huge_hashes_facts)
  note huge = UnmarshalWithDecoder_strict [OF len1 count1 enough1,
      where txdec = Transaction_UnmarshalWithDecoder and txs = "[ex_tx]"
        and d' = "\<lparr>dec_data = ex_standard_huge_hashes, dec_pos = 182\<rparr>"
        and en = ex_empty_entry]
  have accepted: "UnmarshalWithDecoder Transaction_UnmarshalWithDecoder ex_empty_entry
        (NewBinDecoder ex_standard_huge_hashes)
       = (\<lparr>NumHashes = 18446744073709551615, Hash = replicate 32 7, Transactions = [ex_tx]\<rparr>,
          None)"
    using huge [THEN conjunct2, THEN conjunct2, THEN conjunct1]
    by (simp add: ex_standard_huge_hashes_facts ex_empty_entry_def del: decodeSequence.simps)
  have refused: "parseStandardEntry Transaction_UnmarshalWithDecoder ex_standard_huge_hashes
       = Inl (UnreasonableHashCount 18446744073709551615)"
    using huge [THEN conjunct2, THEN conjunct2, THEN conjunct2]
    by (simp add: ex_standard_huge_hashes_facts)
  show ?thesis
    unfolding ex_standard_two_facts ex_standard_huge_hashes_facts strict lenient accepted refused
    by simp
qed

text \<open>
  C10 as stated fails in its second half. On the entry with two declared transactions
  of which the second is cut off, called on an empty receiver, the method returns an
  error and leaves a partial entry behind: the receiver holds the 5 hashes, the hash
  and the first of the two declared transactions.
\<close>

theorem UnmarshalWithDecoder_partial_entry_counterexample:
  "LittleEndian_Uint64 (take 8 (drop 40 ex_standard_two)) = 2
   \<and> Transactions ex_empty_entry = []
   \<and> snd (UnmarshalWithDecoder Transaction_UnmarshalWithDecoder ex_empty_entry
            (NewBinDecoder ex_standard_two))
       = Some (DecodeTransactionFailed 2 2 182 Truncated)
   \<and> fst (UnmarshalWithDecoder Transaction_UnmarshalWithDecoder ex_empty_entry
            (NewBinDecoder ex_standard_two))
       = \<lparr>NumHashes = 5, Hash = replicate 32 7, Transactions = [ex_tx]\<rparr>"
proof -
  have "UnmarshalWithDecoder Transaction_UnmarshalWithDecoder ex_empty_entry
        (NewBinDecoder ex_standard_two)
       = (\<lparr>NumHashes = 5, Hash = replicate 32 7, Transactions = [ex_tx]\<rparr>,
          Some (DecodeTransactionFailed 2 2 182 Truncated))"
    by code_simp
  then show ?thesis
    by (simp add: ex_standard_two_facts ex_empty_entry_def)
qed

end
